theory Spec2Isabelle
  imports Complex_Main
begin

section \<open>Values shared by both modules\<close>

text \<open>
  A JavaScript \<open>number\<close> is modelled as a real: comparison and subtraction are exact, and
  NaN, the infinities and the sign of zero are outside the model. A field of type
  \<open>T | null\<close> is a \<open>T option\<close>, with \<open>None\<close> for \<open>null\<close>.
  A thrown value or a rejection reason is an \<open>Error\<close> carrying its message, and the state
  of a promise when the modelled inputs are exhausted is one of pending, fulfilled, rejected.
\<close>

type_synonym number = real

datatype Error = Error string

datatype 'a Promise = Pending | Fulfilled 'a | Rejected Error

section \<open>The two result records\<close>

text \<open>
  \<open>SpeedTestResult\<close> (server.ts) and \<open>FastResult\<close> (fast.ts) share four field names.
  \<open>SpeedTestResult\<close> is declared first, so that an unqualified field name is the
  \<open>FastResult\<close> one and the fields of a \<open>SpeedTestResult\<close> are written qualified.
\<close>

record SpeedTestResult =
  downloadSpeed :: number
  uploadSpeed :: number
  latency :: number
  bufferBloat :: number

record FastOptions =
  measureUpload :: "bool option"

record FastResult =
  downloadSpeed :: "number option"
  uploadSpeed :: "number option"
  downloadUnit :: "string option"
  downloaded :: "number option"
  uploadUnit :: "string option"
  uploaded :: "number option"
  latency :: "number option"
  bufferBloat :: "number option"
  userLocation :: "string option"
  userIp :: "string option"
  isDone :: bool

section \<open>fast.ts: the sampler and the session runner\<close>

text \<open>
  What the subscriber of the observable is notified of, and the state of one subscription:
  the notifications delivered so far (oldest first), whether the subscription is closed
  (after \<open>complete\<close> or \<open>error\<close> an observer delivers nothing more), and how often a
  browser was launched and \<open>browser.close()\<close> was called.
\<close>

datatype Event = Next FastResult | Complete | Failed Error

record Session =
  events :: "Event list"
  closed :: bool
  browser_launches :: nat
  browser_closes :: nat

definition new_session :: Session where
  "new_session = \<lparr>events = [], closed = False, browser_launches = 0, browser_closes = 0\<rparr>"

definition observer_next :: "Session \<Rightarrow> FastResult \<Rightarrow> Session" where
  "observer_next s v = (if closed s then s else s\<lparr>events := events s @ [Next v]\<rparr>)"

definition observer_complete :: "Session \<Rightarrow> Session" where
  "observer_complete s =
     (if closed s then s else s\<lparr>events := events s @ [Complete], closed := True\<rparr>)"

definition observer_error :: "Session \<Rightarrow> Error \<Rightarrow> Session" where
  "observer_error s e =
     (if closed s then s else s\<lparr>events := events s @ [Failed e], closed := True\<rparr>)"

definition browser_close :: "Session \<Rightarrow> Session" where
  "browser_close s = s\<lparr>browser_closes := Suc (browser_closes s)\<rparr>"

text \<open>
  \<open>isDeepStrictEqual(result, previousResult)\<close>: an object is never equal to \<open>null\<close>;
  two Readings are equal when all their fields are.
\<close>

definition isDeepStrictEqual :: "FastResult \<Rightarrow> FastResult option \<Rightarrow> bool" where
  "isDeepStrictEqual result previousResult =
     (case previousResult of None \<Rightarrow> False | Some p \<Rightarrow> result = p)"

text \<open>
  The page is the sequence of outcomes of the successive \<open>page.evaluate\<close> calls: each
  returns a Reading or throws. \<open>init\<close> is the sampling loop run over the outcomes
  available so far; when they are used up and no terminal Reading was seen, the loop is
  still waiting for the next tick and its promise is pending. The 100 ms delay between
  two ticks is not modelled.
\<close>

datatype Evaluate = Returns FastResult | Throws Error

fun init :: "FastOptions \<Rightarrow> FastResult option \<Rightarrow> Evaluate list \<Rightarrow> Session
    \<Rightarrow> unit Promise \<times> Session" where
  "init options previousResult [] s = (Pending, s)"
| "init options previousResult (Throws e # page) s = (Rejected e, s)"
| "init options previousResult (Returns result # page) s =
     (let s1 = (if (case downloadSpeed result of None \<Rightarrow> False | Some d \<Rightarrow> 0 < d) \<and>
                   \<not> isDeepStrictEqual result previousResult
                then observer_next s result else s)
      in if isDone result \<or> (measureUpload options \<noteq> Some True \<and> uploadSpeed result \<noteq> None)
         then (Fulfilled (), observer_complete (browser_close s1))
         else init options (Some result) page s1)"

text \<open>
  The automation collaborator: the configured executable path or the outcome of installing
  a browser, whether launching, opening a page and navigating fail, and the page.
\<close>

record Automation =
  envPath :: "string option"
  installBrowser :: "Error + string"
  launch :: "Error option"
  newPage :: "Error option"
  goto :: "Error option"
  page :: "Evaluate list"

definition getChromeExecutablePath :: "Automation \<Rightarrow> Error + string" where
  "getChromeExecutablePath a =
     (case envPath a of None \<Rightarrow> installBrowser a | Some p \<Rightarrow> Inr p)"

text \<open>
  The subscriber function handed to \<open>new Observable\<close>, run for one subscription: the
  promise chain launch, newPage, goto, init, with \<open>observer.error\<close> as its only
  rejection handler.
\<close>

definition new_Observable :: "FastOptions \<Rightarrow> Automation \<Rightarrow> Session" where
  "new_Observable options a =
     (case launch a of
        Some e \<Rightarrow> observer_error new_session e
      | None \<Rightarrow>
          let s = new_session\<lparr>browser_launches := 1\<rparr> in
          (case newPage a of
             Some e \<Rightarrow> observer_error s e
           | None \<Rightarrow>
               (case goto a of
                  Some e \<Rightarrow> observer_error s e
                | None \<Rightarrow>
                    (case init options None (page a) s of
                       (Rejected e, s') \<Rightarrow> observer_error s' e
                     | (_, s') \<Rightarrow> s'))))"

definition runFastTest :: "FastOptions \<Rightarrow> Automation \<Rightarrow> Session Promise" where
  "runFastTest options a =
     (case getChromeExecutablePath a of
        Inl e \<Rightarrow> Rejected e
      | Inr executablePath \<Rightarrow> Fulfilled (new_Observable options a))"

section \<open>server.ts: sensors, topics and payloads\<close>

text \<open>
  \<open>SensorType\<close> is a union of four string literals in the source; here it is a datatype
  and \<open>sensorTypeLiteral\<close> gives the string each variant is.
\<close>

datatype SensorType = Download_speed | Upload_speed | Latency | Buffer_bloat

fun sensorTypeLiteral :: "SensorType \<Rightarrow> string" where
  "sensorTypeLiteral Download_speed = ''download_speed''"
| "sensorTypeLiteral Upload_speed = ''upload_speed''"
| "sensorTypeLiteral Latency = ''latency''"
| "sensorTypeLiteral Buffer_bloat = ''buffer_bloat''"

fun SENSOR_TYPE_TO_NAME :: "SensorType \<Rightarrow> string" where
  "SENSOR_TYPE_TO_NAME Download_speed = ''Download Speed''"
| "SENSOR_TYPE_TO_NAME Upload_speed = ''Upload Speed''"
| "SENSOR_TYPE_TO_NAME Latency = ''Latency''"
| "SENSOR_TYPE_TO_NAME Buffer_bloat = ''Buffer Bloat''"

fun deviceClassForSensorType :: "SensorType \<Rightarrow> string option" where
  "deviceClassForSensorType Download_speed = Some ''data_rate''"
| "deviceClassForSensorType Upload_speed = Some ''data_rate''"
| "deviceClassForSensorType Latency = None"
| "deviceClassForSensorType Buffer_bloat = None"

fun unitForSensorType :: "SensorType \<Rightarrow> string" where
  "unitForSensorType Download_speed = ''Mbps''"
| "unitForSensorType Upload_speed = ''Mbps''"
| "unitForSensorType Latency = ''ms''"
| "unitForSensorType Buffer_bloat = ''ms''"

fun iconForSensorType :: "SensorType \<Rightarrow> string" where
  "iconForSensorType Download_speed = ''mdi:download''"
| "iconForSensorType Upload_speed = ''mdi:upload''"
| "iconForSensorType Latency = ''mdi:timer''"
| "iconForSensorType Buffer_bloat = ''mdi:timer-sand''"

definition getDeviceIdentifier :: "string \<Rightarrow> string" where
  "getDeviceIdentifier identifier = ''st_'' @ identifier"

definition getStateTopic :: "string \<Rightarrow> string" where
  "getStateTopic identifier =
     ''homeassistant/sensor/'' @ getDeviceIdentifier identifier @ ''/state''"

subsection \<open>JSON.stringify\<close>

text \<open>
  The values the program serialises, and \<open>JSON.stringify\<close> on them: members in
  insertion order, no white space, strings quoted with the escapes of ECMAScript's
  QuoteJSONString (a character is one code unit). How the runtime prints a number is a
  parameter.
\<close>

datatype JSON =
  JNull | JNumber number | JString string | JArray "JSON list" | JObject "(string \<times> JSON) list"

definition hexDigit :: "nat \<Rightarrow> char" where
  "hexDigit n = ''0123456789abcdef'' ! (n mod 16)"

definition quoteChar :: "char \<Rightarrow> string" where
  "quoteChar c =
     (if c = CHR 0x22 then [CHR 0x5C, CHR 0x22]
      else if c = CHR 0x5C then [CHR 0x5C, CHR 0x5C]
      else if c = CHR 0x08 then [CHR 0x5C, CHR ''b'']
      else if c = CHR 0x09 then [CHR 0x5C, CHR ''t'']
      else if c = CHR 0x0A then [CHR 0x5C, CHR ''n'']
      else if c = CHR 0x0C then [CHR 0x5C, CHR ''f'']
      else if c = CHR 0x0D then [CHR 0x5C, CHR ''r'']
      else if (of_char c :: nat) < 32
        then [CHR 0x5C, CHR ''u'', CHR ''0'', CHR ''0'',
              hexDigit (of_char c div 16), hexDigit (of_char c mod 16)]
      else [c])"

definition quoteJSONString :: "string \<Rightarrow> string" where
  "quoteJSONString s = [CHR 0x22] @ concat (map quoteChar s) @ [CHR 0x22]"

fun join :: "string \<Rightarrow> string list \<Rightarrow> string" where
  "join sep [] = []"
| "join sep [x] = x"
| "join sep (x # y # ys) = x @ sep @ join sep (y # ys)"

fun JSON_stringify :: "(number \<Rightarrow> string) \<Rightarrow> JSON \<Rightarrow> string" where
  "JSON_stringify numberToString JNull = ''null''"
| "JSON_stringify numberToString (JNumber n) = numberToString n"
| "JSON_stringify numberToString (JString s) = quoteJSONString s"
| "JSON_stringify numberToString (JArray xs) =
     ''['' @ join '','' (map (JSON_stringify numberToString) xs) @ '']''"
| "JSON_stringify numberToString (JObject members) =
     ''{'' @ join '',''
        (map (\<lambda>m. quoteJSONString (fst m) @ '':'' @ JSON_stringify numberToString (snd m)) members)
      @ ''}''"

subsection \<open>The world outside the program\<close>

text \<open>
  The console lines written, the \<open>publishAsync\<close> calls made on the bus client (topic and
  payload, oldest first), the broker's answer to a publish (\<open>None\<close> when it is accepted,
  the rejection reason otherwise), and the runtime's printing of numbers.
\<close>

datatype Console = Log string | Warn string

record World =
  console :: "Console list"
  published :: "(string \<times> string) list"
  rejects :: "string \<Rightarrow> string \<Rightarrow> Error option"
  numberToString :: "number \<Rightarrow> string"

definition console_log :: "World \<Rightarrow> string \<Rightarrow> World" where
  "console_log w line = w\<lparr>console := console w @ [Log line]\<rparr>"

definition console_warn :: "World \<Rightarrow> string \<Rightarrow> World" where
  "console_warn w line = w\<lparr>console := console w @ [Warn line]\<rparr>"

definition publishAsync :: "World \<Rightarrow> string \<Rightarrow> string \<Rightarrow> unit Promise \<times> World" where
  "publishAsync w topic payload =
     ((case rejects w topic payload of None \<Rightarrow> Fulfilled () | Some e \<Rightarrow> Rejected e),
      w\<lparr>published := published w @ [(topic, payload)]\<rparr>)"

text \<open>
  \<open>Promise.all\<close> of promises without a value: rejected when one of them is, pending when
  none is rejected and one is pending. Of several rejections the model reports the first in
  the order of the array.
\<close>

fun Promise_all :: "unit Promise list \<Rightarrow> unit Promise" where
  "Promise_all [] = Fulfilled ()"
| "Promise_all (Rejected e # ps) = Rejected e"
| "Promise_all (Fulfilled _ # ps) = Promise_all ps"
| "Promise_all (Pending # ps) = (case Promise_all ps of Rejected e \<Rightarrow> Rejected e | _ \<Rightarrow> Pending)"

section \<open>server.ts: the operations\<close>

definition publishSpeedTestResult :: "World \<Rightarrow> string \<Rightarrow> SpeedTestResult \<Rightarrow> unit Promise \<times> World" where
  "publishSpeedTestResult w identifier result =
     (if SpeedTestResult.downloadSpeed result < 5
      then (Fulfilled (),
            console_warn w ''[st2mqtt] Download speed is less than 5 Mbps, skipping publishing'')
      else publishAsync
             (console_log w
                (''[st2mqtt] Publishing speed test result to topic: '' @ getStateTopic identifier))
             (getStateTopic identifier)
             (JSON_stringify (numberToString w)
                (JObject [(''download_speed'', JNumber (SpeedTestResult.downloadSpeed result)),
                          (''upload_speed'', JNumber (SpeedTestResult.uploadSpeed result)),
                          (''latency'', JNumber (SpeedTestResult.latency result)),
                          (''buffer_bloat'', JNumber (SpeedTestResult.bufferBloat result))])))"

text \<open>
  The subscriber of \<open>runSpeedTest\<close>, fed the notifications of the stream in order with the
  local variable \<open>result\<close> as its state: \<open>next\<close> overwrites it, \<open>complete\<close> and
  \<open>error\<close> settle the promise. With no terminal notification yet the promise is pending.
\<close>

definition complete :: "FastResult option \<Rightarrow> SpeedTestResult Promise" where
  "complete result =
     (case result of
        None \<Rightarrow> Rejected (Error ''No result'')
      | Some r \<Rightarrow>
          (case (downloadSpeed r, uploadSpeed r, latency r, bufferBloat r) of
             (Some d, Some u, Some l, Some b) \<Rightarrow>
               Fulfilled \<lparr>SpeedTestResult.downloadSpeed = d, uploadSpeed = u, latency = l,
                          bufferBloat = max (b - l) 0\<rparr>
           | _ \<Rightarrow> Rejected (Error ''No result'')))"

fun subscriber :: "FastResult option \<Rightarrow> Event list \<Rightarrow> SpeedTestResult Promise" where
  "subscriber result [] = Pending"
| "subscriber result (Next v # es) = subscriber (Some v) es"
| "subscriber result (Complete # es) = complete result"
| "subscriber result (Failed error # es) = Rejected error"

text \<open>
  \<open>runSpeedTest\<close> awaits \<open>runFastTest\<close> inside the executor of its promise: when that
  await rejects, nothing settles the promise and it stays pending.
\<close>

definition runSpeedTest :: "Automation \<Rightarrow> SpeedTestResult Promise" where
  "runSpeedTest a =
     (case runFastTest \<lparr>measureUpload = Some True\<rparr> a of
        Fulfilled observable \<Rightarrow> subscriber None (events observable)
      | _ \<Rightarrow> Pending)"

definition runAndReport :: "World \<Rightarrow> string \<Rightarrow> Automation \<Rightarrow> unit Promise \<times> World" where
  "runAndReport w identifier a =
     (let w1 = console_log w ''[st2mqtt] Starting speed test'' in
      case runSpeedTest a of
        Pending \<Rightarrow> (Pending, w1)
      | Rejected e \<Rightarrow> (Rejected e, w1)
      | Fulfilled testResult \<Rightarrow>
          publishSpeedTestResult
            (foldl console_log w1
               [''[st2mqtt] Speed test complete!'',
                ''[st2mqtt]       Download: ''
                   @ numberToString w (SpeedTestResult.downloadSpeed testResult) @ '' Mbps'',
                ''[st2mqtt]         Upload: ''
                   @ numberToString w (SpeedTestResult.uploadSpeed testResult) @ '' Mbps'',
                ''[st2mqtt]        Latency: ''
                   @ numberToString w (SpeedTestResult.latency testResult),
                ''[st2mqtt]   Buffer Bloat: ''
                   @ numberToString w (SpeedTestResult.bufferBloat testResult)])
            identifier testResult)"

text \<open>The topic and the \<open>payload\<close> object of \<open>publishDiscoverMessage\<close>.\<close>

definition discoveryTopic :: "string \<Rightarrow> SensorType \<Rightarrow> string" where
  "discoveryTopic identifier sensorType =
     ''homeassistant/sensor/'' @ getDeviceIdentifier identifier @ ''/''
       @ sensorTypeLiteral sensorType @ ''/config''"

definition discoveryPayload :: "string \<Rightarrow> SensorType \<Rightarrow> JSON" where
  "discoveryPayload identifier sensorType =
     JObject
       [(''name'', JString (SENSOR_TYPE_TO_NAME sensorType)),
        (''state_topic'', JString (getStateTopic identifier)),
        (''device_class'',
           (case deviceClassForSensorType sensorType of None \<Rightarrow> JNull | Some c \<Rightarrow> JString c)),
        (''unique_id'',
           JString (getDeviceIdentifier identifier @ ''_'' @ sensorTypeLiteral sensorType)),
        (''value_template'',
           JString (''{{ value_json.'' @ sensorTypeLiteral sensorType @ '' }}'')),
        (''icon'', JString (iconForSensorType sensorType)),
        (''unit_of_measurement'', JString (unitForSensorType sensorType)),
        (''device'',
           JObject
             [(''name'', JString ''Speedtest Sensor''),
              (''identifiers'', JArray [JString (getDeviceIdentifier identifier)]),
              (''manufacturer'', JString ''Vincent Riemer''),
              (''model'', JString ''Speedtest Docker Container'')])]"

definition publishDiscoverMessage :: "World \<Rightarrow> string \<Rightarrow> SensorType \<Rightarrow> unit Promise \<times> World" where
  "publishDiscoverMessage w identifier sensorType =
     publishAsync
       (console_log w
          (''[st2mqtt] Publishing discovery message to '' @ discoveryTopic identifier sensorType))
       (discoveryTopic identifier sensorType)
       (JSON_stringify (numberToString w) (discoveryPayload identifier sensorType))"

text \<open>
  The four calls are made one after the other while the array is built, each running up to
  its \<open>publishAsync\<close> call; \<open>Promise.all\<close> then awaits the four publishes.
\<close>

definition publishDiscoveryMessages :: "World \<Rightarrow> string \<Rightarrow> unit Promise \<times> World" where
  "publishDiscoveryMessages w identifier =
     (let (p1, w1) = publishDiscoverMessage w identifier Download_speed;
          (p2, w2) = publishDiscoverMessage w1 identifier Upload_speed;
          (p3, w3) = publishDiscoverMessage w2 identifier Latency;
          (p4, w4) = publishDiscoverMessage w3 identifier Buffer_bloat
      in (Promise_all [p1, p2, p3, p4], w4))"

text \<open>
  The handler returned by \<open>createMessageHandler\<close>. The \<open>switch\<close> has no \<open>break\<close>: after
  the block of the status case control reaches the block of \<open>default\<close>, unless the
  awaited discovery burst rejected, which rejects the handler there.
\<close>

definition createMessageHandler :: "World \<Rightarrow> string \<Rightarrow> string \<Rightarrow> string \<Rightarrow> unit Promise \<times> World" where
  "createMessageHandler w identifier topic message =
     (if topic = ''homeassistant/status''
      then (case publishDiscoveryMessages
                   (console_log w
                      (''[st2mqtt] Received '' @ [CHR 0x22] @ ''homeassistant/status''
                         @ [CHR 0x22] @ '' message''))
                   identifier of
              (Fulfilled u, w') \<Rightarrow>
                (Fulfilled (), console_warn w' (''Received message on unknown topic: '' @ topic))
            | (p, w') \<Rightarrow> (p, w'))
      else (Fulfilled (), console_warn w (''Received message on unknown topic: '' @ topic)))"

subsection \<open>Exit handlers\<close>

text \<open>
  The process as far as \<open>registerExitHandlers\<close> touches it: console lines, calls of
  \<open>cronJob.stop()\<close> and \<open>mqttClient.end()\<close>, and the exit code once \<open>process.exit\<close>
  was called. \<open>process.exit\<close> ends the process at once; the runtime emits \<open>beforeExit\<close>
  only when the event loop runs empty, never for an explicit \<open>process.exit\<close>, and no
  handler is registered for \<open>exit\<close>.
\<close>

datatype Signal = SIGHUP | SIGINT | SIGTERM

datatype ProcessEvent = BeforeExit | Signalled Signal

record Process =
  logged :: "Console list"
  cronJob_stops :: nat
  mqttClient_ends :: nat
  exited :: "nat option"

definition process_exit :: "Process \<Rightarrow> nat \<Rightarrow> Process" where
  "process_exit p code = p\<lparr>exited := Some code\<rparr>"

definition registerExitHandlers :: "Process \<Rightarrow> Process" where
  "registerExitHandlers p = p\<lparr>logged := logged p @ [Log ''[st2mqtt] Registering exit handlers'']\<rparr>"

text \<open>The listeners that \<open>registerExitHandlers\<close> installs, by the event they listen to.\<close>

fun exitHandler :: "ProcessEvent \<Rightarrow> Process \<Rightarrow> Process" where
  "exitHandler BeforeExit p =
     p\<lparr>logged := logged p @ [Log ''[st2mqtt] Cleaning up''],
       cronJob_stops := Suc (cronJob_stops p),
       mqttClient_ends := Suc (mqttClient_ends p)\<rparr>"
| "exitHandler (Signalled SIGHUP) p = process_exit p (128 + 1)"
| "exitHandler (Signalled SIGINT) p = process_exit p (128 + 2)"
| "exitHandler (Signalled SIGTERM) p = process_exit p (128 + 15)"

text \<open>The events the process receives, in order; after \<open>process.exit\<close> nothing runs.\<close>

fun receive :: "Process \<Rightarrow> ProcessEvent list \<Rightarrow> Process" where
  "receive p [] = p"
| "receive p (e # es) =
     (case exited p of Some code \<Rightarrow> p | None \<Rightarrow> receive (exitHandler e p) es)"

section \<open>Auxiliary definitions for the statements\<close>

text \<open>The Readings among the notifications, in order.\<close>

fun emitted :: "Event list \<Rightarrow> FastResult list" where
  "emitted [] = []"
| "emitted (Next v # es) = v # emitted es"
| "emitted (_ # es) = emitted es"

text \<open>A Reading with every optional field absent, for writing concrete Readings.\<close>

definition blank :: FastResult where
  "blank = \<lparr>downloadSpeed = None, uploadSpeed = None, downloadUnit = None, downloaded = None,
     uploadUnit = None, uploaded = None, latency = None, bufferBloat = None,
     userLocation = None, userIp = None, isDone = False\<rparr>"

text \<open>
  Concrete surroundings for evaluating the operations: a world whose broker accepts every
  publish, one whose broker rejects every publish, and an automation in which launching,
  opening the page and navigating succeed.
\<close>

definition accepting_world :: World where
  "accepting_world =
     \<lparr>console = [], published = [], rejects = (\<lambda>topic payload. None),
      numberToString = (\<lambda>n. ''n'')\<rparr>"

definition rejecting_world :: World where
  "rejecting_world =
     \<lparr>console = [], published = [],
      rejects = (\<lambda>topic payload. Some (Error ''client disconnecting'')),
      numberToString = (\<lambda>n. ''n'')\<rparr>"

definition automation :: "Evaluate list \<Rightarrow> Automation" where
  "automation ticks =
     \<lparr>envPath = Some ''/usr/bin/chromium-browser'', installBrowser = Inr [],
      launch = None, newPage = None, goto = None, page = ticks\<rparr>"

definition running_process :: Process where
  "running_process = \<lparr>logged = [], cronJob_stops = 0, mqttClient_ends = 0, exited = None\<rparr>"

section \<open>Properties of the sampler\<close>

lemma emitted_append: "emitted (es @ fs) = emitted es @ emitted fs"
  by (induction es rule: emitted.induct) simp_all

text \<open>One iteration of the loop on a Reading that is not terminal.\<close>

lemma init_step:
  assumes "\<not> (isDone r \<or> (measureUpload options \<noteq> Some True \<and> uploadSpeed r \<noteq> None))"
  shows "init options prev (Returns r # rest) s
     = init options (Some r) rest
         (if (case downloadSpeed r of None \<Rightarrow> False | Some d \<Rightarrow> 0 < d) \<and> \<not> isDeepStrictEqual r prev
          then observer_next s r else s)"
  using assms by (simp only: init.simps Let_def if_False)

text \<open>While no sampled Reading is terminal the loop keeps waiting and the session stays open.\<close>

lemma init_running:
  "\<forall>x\<in>set rs. \<not> (isDone x \<or> (measureUpload options \<noteq> Some True \<and> uploadSpeed x \<noteq> None))
   \<Longrightarrow> fst (init options prev (map Returns rs) s) = Pending
     \<and> closed (snd (init options prev (map Returns rs) s)) = closed s
     \<and> browser_closes (snd (init options prev (map Returns rs) s)) = browser_closes s
     \<and> browser_launches (snd (init options prev (map Returns rs) s)) = browser_launches s"
proof (induction rs arbitrary: prev s)
  case Nil
  then show ?case by simp
next
  case (Cons r rs)
  from Cons.prems
  have r: "\<not> (isDone r \<or> (measureUpload options \<noteq> Some True \<and> uploadSpeed r \<noteq> None))"
    and rs: "\<forall>x\<in>set rs. \<not> (isDone x \<or> (measureUpload options \<noteq> Some True \<and> uploadSpeed x \<noteq> None))"
    by simp_all
  show ?case
    using Cons.IH [OF rs] by (simp add: init_step [OF r] observer_next_def del: init.simps)
qed

text \<open>
  The loop over a longer page continues from the state reached on the prefix, with the last
  sampled Reading as the comparison baseline.
\<close>

lemma init_append:
  "\<forall>x\<in>set rs. \<not> (isDone x \<or> (measureUpload options \<noteq> Some True \<and> uploadSpeed x \<noteq> None))
   \<Longrightarrow> init options prev (map Returns rs @ rest) s
     = init options (if rs = [] then prev else Some (last rs)) rest
         (snd (init options prev (map Returns rs) s))"
proof (induction rs arbitrary: prev s)
  case Nil
  then show ?case by simp
next
  case (Cons r rs)
  from Cons.prems
  have r: "\<not> (isDone r \<or> (measureUpload options \<noteq> Some True \<and> uploadSpeed r \<noteq> None))"
    and rs: "\<forall>x\<in>set rs. \<not> (isDone x \<or> (measureUpload options \<noteq> Some True \<and> uploadSpeed x \<noteq> None))"
    by simp_all
  show ?case
    using Cons.IH [OF rs] by (simp add: init_step [OF r] del: init.simps)
qed


text \<open>The tick that follows a run of Readings none of which was terminal.\<close>

lemma init_tick:
  assumes "\<forall>x\<in>set rs. \<not> (isDone x \<or> (measureUpload options \<noteq> Some True \<and> uploadSpeed x \<noteq> None))"
  shows "init options None (map Returns (rs @ [r])) s =
     (let before = snd (init options None (map Returns rs) s);
          s1 = (if (case downloadSpeed r of None \<Rightarrow> False | Some d \<Rightarrow> 0 < d) \<and>
                   \<not> isDeepStrictEqual r (if rs = [] then None else Some (last rs))
                then observer_next before r else before)
      in if isDone r \<or> (measureUpload options \<noteq> Some True \<and> uploadSpeed r \<noteq> None)
         then (Fulfilled (), observer_complete (browser_close s1))
         else (Pending, s1))"
proof -
  have "init options None (map Returns (rs @ [r])) s
      = init options (if rs = [] then None else Some (last rs)) [Returns r]
          (snd (init options None (map Returns rs) s))"
    using init_append [OF assms, of None "[Returns r]" s] by simp
  then show ?thesis by (simp only: init.simps Let_def)
qed

text \<open>
  C1 (sampler emit and dedup law). At any tick the loop reaches (no earlier Reading was
  terminal), the Reading \<open>r\<close> sampled there is emitted if and only if its downloadSpeed is
  present and greater than 0 and it differs from the Reading sampled at the previous tick,
  whether or not that one was emitted; at the first tick there is no previous Reading. On
  the ticks downloadSpeed 0, downloadSpeed 50, the same Reading again, downloadSpeed 55 with
  isDone, exactly the second and the fourth Reading are emitted, and the sequence completes.
\<close>

theorem sampler_emit_dedup_law:
  "((\<forall>x\<in>set rs. \<not> (isDone x \<or> (measureUpload options \<noteq> Some True \<and> uploadSpeed x \<noteq> None)))
      \<and> \<not> closed s \<longrightarrow>
     emitted (events (snd (init options None (map Returns (rs @ [r])) s)))
     = emitted (events (snd (init options None (map Returns rs) s)))
       @ (if (\<exists>d. downloadSpeed r = Some d \<and> 0 < d) \<and> (rs = [] \<or> r \<noteq> last rs)
          then [r] else []))
   \<and> (let r1 = blank\<lparr>downloadSpeed := Some 0\<rparr>;
           r2 = blank\<lparr>downloadSpeed := Some 50, downloadUnit := Some ''Mbps''\<rparr>;
           r4 = blank\<lparr>downloadSpeed := Some 55, isDone := True\<rparr>
       in init options None (map Returns [r1, r2, r2, r4]) new_session
          = (Fulfilled (),
             \<lparr>events = [Next r2, Next r4, Complete], closed = True,
              browser_launches = 0, browser_closes = 1\<rparr>))"
proof (intro conjI impI)
  assume h: "(\<forall>x\<in>set rs. \<not> (isDone x \<or> (measureUpload options \<noteq> Some True \<and> uploadSpeed x \<noteq> None)))
      \<and> \<not> closed s"
  then have run: "\<forall>x\<in>set rs. \<not> (isDone x \<or> (measureUpload options \<noteq> Some True \<and> uploadSpeed x \<noteq> None))"
    and op: "\<not> closed s" by simp_all
  define before where "before = snd (init options None (map Returns rs) s)"
  have cl: "\<not> closed before"
    using init_running [OF run, of None s] op by (simp add: before_def)
  have filt: "((case downloadSpeed r of None \<Rightarrow> False | Some d \<Rightarrow> 0 < d) \<and>
                   \<not> isDeepStrictEqual r (if rs = [] then None else Some (last rs)))
      = ((\<exists>d. downloadSpeed r = Some d \<and> 0 < d) \<and> (rs = [] \<or> r \<noteq> last rs))"
    by (cases "downloadSpeed r") (auto simp: isDeepStrictEqual_def)
  show "emitted (events (snd (init options None (map Returns (rs @ [r])) s)))
     = emitted (events (snd (init options None (map Returns rs) s)))
       @ (if (\<exists>d. downloadSpeed r = Some d \<and> 0 < d) \<and> (rs = [] \<or> r \<noteq> last rs)
          then [r] else [])"
    unfolding init_tick [OF run] filt before_def [symmetric] Let_def
    using cl
    by (simp add: observer_next_def observer_complete_def browser_close_def emitted_append)
next
  show "let r1 = blank\<lparr>downloadSpeed := Some 0\<rparr>;
           r2 = blank\<lparr>downloadSpeed := Some 50, downloadUnit := Some ''Mbps''\<rparr>;
           r4 = blank\<lparr>downloadSpeed := Some 55, isDone := True\<rparr>
       in init options None (map Returns [r1, r2, r2, r4]) new_session
          = (Fulfilled (),
             \<lparr>events = [Next r2, Next r4, Complete], closed = True,
              browser_launches = 0, browser_closes = 1\<rparr>)"
    by (simp add: Let_def blank_def new_session_def isDeepStrictEqual_def observer_next_def
        observer_complete_def browser_close_def)
qed

theorem sampler_emit_dedup_law_witness:
  "\<not> (isDone (blank\<lparr>downloadSpeed := Some 0\<rparr>)
        \<or> (measureUpload \<lparr>measureUpload = Some True\<rparr> \<noteq> Some True
            \<and> uploadSpeed (blank\<lparr>downloadSpeed := Some 0\<rparr>) \<noteq> None))
   \<and> \<not> closed new_session
   \<and> emitted (events (snd (init \<lparr>measureUpload = Some True\<rparr> None
        (map Returns ([blank\<lparr>downloadSpeed := Some 0\<rparr>] @ [blank\<lparr>downloadSpeed := Some 50\<rparr>]))
        new_session)))
     = [blank\<lparr>downloadSpeed := Some 50\<rparr>]"
  using sampler_emit_dedup_law [of "[blank\<lparr>downloadSpeed := Some 0\<rparr>]"
      "\<lparr>measureUpload = Some True\<rparr>" new_session "blank\<lparr>downloadSpeed := Some 50\<rparr>"]
  by (simp add: blank_def new_session_def isDeepStrictEqual_def)


text \<open>
  C2 (sampler termination law). While no sampled Reading is terminal the sequence is not
  complete. At the next tick it completes exactly when the Reading has isDone set, or upload
  measurement was not requested and uploadSpeed is present; a Reading that passes the emit
  filter at that tick is emitted before the completion; isDone alone always completes.
\<close>

theorem sampler_termination_law:
  "(\<forall>x\<in>set rs. \<not> (isDone x \<or> (measureUpload options \<noteq> Some True \<and> uploadSpeed x \<noteq> None)))
      \<and> \<not> closed s \<longrightarrow>
   (let before = init options None (map Returns rs) s;
        after = init options None (map Returns (rs @ [r])) s;
        terminal = (isDone r \<or> (measureUpload options \<noteq> Some True \<and> uploadSpeed r \<noteq> None));
        passes = ((\<exists>d. downloadSpeed r = Some d \<and> 0 < d) \<and> (rs = [] \<or> r \<noteq> last rs))
    in fst before = Pending \<and> \<not> closed (snd before)
       \<and> fst after = (if terminal then Fulfilled () else Pending)
       \<and> closed (snd after) = terminal
       \<and> events (snd after) = events (snd before)
            @ (if passes then [Next r] else []) @ (if terminal then [Complete] else [])
       \<and> (isDone r \<longrightarrow> fst after = Fulfilled () \<and> last (events (snd after)) = Complete))"
proof (intro impI)
  assume h: "(\<forall>x\<in>set rs. \<not> (isDone x \<or> (measureUpload options \<noteq> Some True \<and> uploadSpeed x \<noteq> None)))
      \<and> \<not> closed s"
  then have run: "\<forall>x\<in>set rs. \<not> (isDone x \<or> (measureUpload options \<noteq> Some True \<and> uploadSpeed x \<noteq> None))"
    and op: "\<not> closed s" by simp_all
  define before where "before = snd (init options None (map Returns rs) s)"
  have pend: "fst (init options None (map Returns rs) s) = Pending"
    using init_running [OF run, of None s] by simp
  have cl: "\<not> closed before"
    using init_running [OF run, of None s] op by (simp add: before_def)
  have filt: "((case downloadSpeed r of None \<Rightarrow> False | Some d \<Rightarrow> 0 < d) \<and>
                   \<not> isDeepStrictEqual r (if rs = [] then None else Some (last rs)))
      = ((\<exists>d. downloadSpeed r = Some d \<and> 0 < d) \<and> (rs = [] \<or> r \<noteq> last rs))"
    by (cases "downloadSpeed r") (auto simp: isDeepStrictEqual_def)
  show "let before = init options None (map Returns rs) s;
        after = init options None (map Returns (rs @ [r])) s;
        terminal = (isDone r \<or> (measureUpload options \<noteq> Some True \<and> uploadSpeed r \<noteq> None));
        passes = ((\<exists>d. downloadSpeed r = Some d \<and> 0 < d) \<and> (rs = [] \<or> r \<noteq> last rs))
    in fst before = Pending \<and> \<not> closed (snd before)
       \<and> fst after = (if terminal then Fulfilled () else Pending)
       \<and> closed (snd after) = terminal
       \<and> events (snd after) = events (snd before)
            @ (if passes then [Next r] else []) @ (if terminal then [Complete] else [])
       \<and> (isDone r \<longrightarrow> fst after = Fulfilled () \<and> last (events (snd after)) = Complete)"
    unfolding init_tick [OF run] filt before_def [symmetric] Let_def pend
    using cl
    by (auto simp add: observer_next_def observer_complete_def browser_close_def)
qed

theorem sampler_termination_law_witness:
  "\<not> (isDone (blank\<lparr>downloadSpeed := Some 50\<rparr>)
        \<or> (measureUpload \<lparr>measureUpload = Some True\<rparr> \<noteq> Some True
            \<and> uploadSpeed (blank\<lparr>downloadSpeed := Some 50\<rparr>) \<noteq> None))
   \<and> \<not> closed new_session
   \<and> isDone (blank\<lparr>uploadSpeed := Some 12, isDone := True\<rparr>)
   \<and> fst (init \<lparr>measureUpload = Some True\<rparr> None
        (map Returns ([blank\<lparr>downloadSpeed := Some 50\<rparr>]
           @ [blank\<lparr>uploadSpeed := Some 12, isDone := True\<rparr>])) new_session) = Fulfilled ()
   \<and> events (snd (init \<lparr>measureUpload = Some True\<rparr> None
        (map Returns ([blank\<lparr>downloadSpeed := Some 50\<rparr>]
           @ [blank\<lparr>uploadSpeed := Some 12, isDone := True\<rparr>])) new_session))
     = [Next (blank\<lparr>downloadSpeed := Some 50\<rparr>), Complete]"
  using sampler_termination_law [of "[blank\<lparr>downloadSpeed := Some 50\<rparr>]"
      "\<lparr>measureUpload = Some True\<rparr>" new_session
      "blank\<lparr>uploadSpeed := Some 12, isDone := True\<rparr>"]
  by (simp add: Let_def blank_def new_session_def isDeepStrictEqual_def observer_next_def)

section \<open>Properties of the session runner\<close>

text \<open>
  C6 (session teardown). The claim is that the browser is closed exactly once on every
  path. The loop calls \<open>browser.close()\<close> only where a Reading is terminal; the rejection
  handler of the promise chain calls \<open>observer.error\<close> and nothing else. When an in-page
  extraction throws after one emitted Reading, or when the navigation fails, the browser was
  launched, the subscriber is notified of the failure, and \<open>browser.close()\<close> was never
  called; on normal completion it is called once.
\<close>

theorem session_not_closed_on_failure:
  "new_Observable \<lparr>measureUpload = Some True\<rparr>
       (automation [Returns (blank\<lparr>downloadSpeed := Some 50\<rparr>),
                    Throws (Error ''Execution context was destroyed'')])
     = \<lparr>events = [Next (blank\<lparr>downloadSpeed := Some 50\<rparr>),
                  Failed (Error ''Execution context was destroyed'')],
        closed = True, browser_launches = 1, browser_closes = 0\<rparr>
   \<and> new_Observable \<lparr>measureUpload = Some True\<rparr>
       ((automation [])\<lparr>goto := Some (Error ''net::ERR_NAME_NOT_RESOLVED'')\<rparr>)
     = \<lparr>events = [Failed (Error ''net::ERR_NAME_NOT_RESOLVED'')],
        closed = True, browser_launches = 1, browser_closes = 0\<rparr>
   \<and> new_Observable \<lparr>measureUpload = Some True\<rparr>
       (automation [Returns (blank\<lparr>downloadSpeed := Some 50, isDone := True\<rparr>)])
     = \<lparr>events = [Next (blank\<lparr>downloadSpeed := Some 50, isDone := True\<rparr>), Complete],
        closed = True, browser_launches = 1, browser_closes = 1\<rparr>"
  by (simp add: new_Observable_def automation_def new_session_def blank_def
      isDeepStrictEqual_def observer_next_def observer_error_def observer_complete_def
      browser_close_def)

section \<open>Properties of the measurement reducer\<close>

text \<open>
  A run of \<open>next\<close> notifications leaves the last Reading in \<open>result\<close>.
\<close>

lemma subscriber_nexts:
  "subscriber result (map Next rs @ es) = subscriber (if rs = [] then result else Some (last rs)) es"
  by (induction rs arbitrary: result) simp_all

lemma complete_Fulfilled_iff:
  "(\<exists>res. complete result = Fulfilled res) \<longleftrightarrow>
   (\<exists>r. result = Some r \<and> downloadSpeed r \<noteq> None \<and> uploadSpeed r \<noteq> None
        \<and> latency r \<noteq> None \<and> bufferBloat r \<noteq> None)"
  by (auto simp: complete_def split: option.splits)

lemma complete_cases:
  "complete result = Rejected (Error ''No result'') \<or> (\<exists>res. complete result = Fulfilled res)"
  by (auto simp: complete_def split: option.splits)

text \<open>
  C3 (reducer completeness). On completion of the stream the promise is fulfilled exactly
  when a Reading was seen and the last one seen has downloadSpeed, uploadSpeed, latency and
  bufferBloat present; earlier Readings do not count. Otherwise it is rejected with the
  error \<open>No result\<close>. An error of the stream rejects it with that error. Whenever
  \<open>runSpeedTest\<close> is rejected, \<open>runAndReport\<close> is rejected with the same error and
  nothing is published.
\<close>

theorem reducer_completeness:
  "subscriber None (map Next rs @ Complete # es)
     = subscriber (if rs = [] then None else Some (last rs)) [Complete]
   \<and> ((\<exists>res. subscriber None (map Next rs @ Complete # es) = Fulfilled res) \<longleftrightarrow>
      (rs \<noteq> [] \<and> downloadSpeed (last rs) \<noteq> None \<and> uploadSpeed (last rs) \<noteq> None
         \<and> latency (last rs) \<noteq> None \<and> bufferBloat (last rs) \<noteq> None))
   \<and> ((\<nexists>res. subscriber None (map Next rs @ Complete # es) = Fulfilled res) \<longrightarrow>
         subscriber None (map Next rs @ Complete # es) = Rejected (Error ''No result''))
   \<and> subscriber None (map Next rs @ Failed e # es) = Rejected e
   \<and> (runSpeedTest a = Rejected e \<longrightarrow>
         fst (runAndReport w identifier a) = Rejected e
         \<and> published (snd (runAndReport w identifier a)) = published w)"
proof (intro conjI impI)
  show "subscriber None (map Next rs @ Complete # es)
     = subscriber (if rs = [] then None else Some (last rs)) [Complete]"
    unfolding subscriber_nexts by simp
next
  show "(\<exists>res. subscriber None (map Next rs @ Complete # es) = Fulfilled res) \<longleftrightarrow>
      (rs \<noteq> [] \<and> downloadSpeed (last rs) \<noteq> None \<and> uploadSpeed (last rs) \<noteq> None
         \<and> latency (last rs) \<noteq> None \<and> bufferBloat (last rs) \<noteq> None)"
    unfolding subscriber_nexts subscriber.simps complete_Fulfilled_iff by auto
next
  assume "\<nexists>res. subscriber None (map Next rs @ Complete # es) = Fulfilled res"
  then show "subscriber None (map Next rs @ Complete # es) = Rejected (Error ''No result'')"
    unfolding subscriber_nexts subscriber.simps
    using complete_cases [of "if rs = [] then None else Some (last rs)"] by blast
next
  show "subscriber None (map Next rs @ Failed e # es) = Rejected e"
    unfolding subscriber_nexts by simp
next
  assume "runSpeedTest a = Rejected e"
  then show "fst (runAndReport w identifier a) = Rejected e"
    by (simp add: runAndReport_def)
next
  assume "runSpeedTest a = Rejected e"
  then show "published (snd (runAndReport w identifier a)) = published w"
    by (simp add: runAndReport_def console_log_def)
qed

theorem reducer_completeness_witness:
  "(\<nexists>res. subscriber None
       (map Next [blank\<lparr>downloadSpeed := Some 50, uploadSpeed := Some 12, bufferBloat := Some 35,
                        isDone := True\<rparr>] @ Complete # []) = Fulfilled res)
   \<and> runSpeedTest (automation [Returns (blank\<lparr>downloadSpeed := Some 50, uploadSpeed := Some 12,
                        bufferBloat := Some 35, isDone := True\<rparr>)])
       = Rejected (Error ''No result'')
   \<and> fst (runAndReport accepting_world ''abc''
        (automation [Returns (blank\<lparr>downloadSpeed := Some 50, uploadSpeed := Some 12,
                        bufferBloat := Some 35, isDone := True\<rparr>)]))
       = Rejected (Error ''No result'')
   \<and> published (snd (runAndReport accepting_world ''abc''
        (automation [Returns (blank\<lparr>downloadSpeed := Some 50, uploadSpeed := Some 12,
                        bufferBloat := Some 35, isDone := True\<rparr>)])))
       = []"
proof -
  have run: "runSpeedTest (automation [Returns (blank\<lparr>downloadSpeed := Some 50, uploadSpeed := Some 12,
                        bufferBloat := Some 35, isDone := True\<rparr>)])
       = Rejected (Error ''No result'')"
    by (simp add: runSpeedTest_def runFastTest_def getChromeExecutablePath_def new_Observable_def
        automation_def new_session_def blank_def isDeepStrictEqual_def observer_next_def
        observer_complete_def browser_close_def complete_def)
  have no: "\<nexists>res. subscriber None
       (map Next [blank\<lparr>downloadSpeed := Some 50, uploadSpeed := Some 12, bufferBloat := Some 35,
                        isDone := True\<rparr>] @ Complete # []) = Fulfilled res"
    by (simp add: complete_def blank_def)
  from reducer_completeness [of "[blank\<lparr>downloadSpeed := Some 50, uploadSpeed := Some 12,
        bufferBloat := Some 35, isDone := True\<rparr>]" "[]"
      "Error ''No result''"
      "automation [Returns (blank\<lparr>downloadSpeed := Some 50, uploadSpeed := Some 12,
                        bufferBloat := Some 35, isDone := True\<rparr>)]"
      accepting_world "''abc''"] run no
  show ?thesis by (simp add: accepting_world_def)
qed

text \<open>
  C4 (buffer-bloat normalization). When the last Reading seen has the four fields present,
  with latency \<open>l\<close> and raw bufferBloat \<open>b\<close>, the result carries downloadSpeed,
  uploadSpeed and latency unchanged and bufferBloat \<open>max (b - l) 0\<close>, which is not
  negative; latency 20 with raw bufferBloat 15 gives 0, and with 35 gives 15.
\<close>

theorem bufferbloat_normalization:
  "(downloadSpeed r = Some d \<and> uploadSpeed r = Some u \<and> latency r = Some l \<and> bufferBloat r = Some b
     \<longrightarrow> subscriber None (map Next rs @ [Next r, Complete])
           = Fulfilled \<lparr>SpeedTestResult.downloadSpeed = d, uploadSpeed = u, latency = l,
                        bufferBloat = max (b - l) 0\<rparr>
         \<and> (\<exists>res. subscriber None (map Next rs @ [Next r, Complete]) = Fulfilled res
                \<and> 0 \<le> SpeedTestResult.bufferBloat res))
   \<and> complete (Some (blank\<lparr>downloadSpeed := Some 50, uploadSpeed := Some 12,
                             latency := Some 20, bufferBloat := Some 15\<rparr>))
       = Fulfilled \<lparr>SpeedTestResult.downloadSpeed = 50, uploadSpeed = 12, latency = 20,
                    bufferBloat = 0\<rparr>
   \<and> complete (Some (blank\<lparr>downloadSpeed := Some 50, uploadSpeed := Some 12,
                             latency := Some 20, bufferBloat := Some 35\<rparr>))
       = Fulfilled \<lparr>SpeedTestResult.downloadSpeed = 50, uploadSpeed = 12, latency = 20,
                    bufferBloat = 15\<rparr>"
proof (intro conjI impI)
  assume h: "downloadSpeed r = Some d \<and> uploadSpeed r = Some u \<and> latency r = Some l \<and> bufferBloat r = Some b"
  have "subscriber None (map Next rs @ [Next r, Complete]) = complete (Some r)"
    unfolding subscriber_nexts by simp
  with h show eq: "subscriber None (map Next rs @ [Next r, Complete])
           = Fulfilled \<lparr>SpeedTestResult.downloadSpeed = d, uploadSpeed = u, latency = l,
                        bufferBloat = max (b - l) 0\<rparr>"
    by (simp add: complete_def)
  then show "\<exists>res. subscriber None (map Next rs @ [Next r, Complete]) = Fulfilled res
                \<and> 0 \<le> SpeedTestResult.bufferBloat res"
    by simp
qed (simp_all add: complete_def blank_def)

theorem bufferbloat_normalization_witness:
  "downloadSpeed (blank\<lparr>downloadSpeed := Some 50, uploadSpeed := Some 12,
                        latency := Some 20, bufferBloat := Some 15\<rparr>) = Some 50
   \<and> uploadSpeed (blank\<lparr>downloadSpeed := Some 50, uploadSpeed := Some 12,
                        latency := Some 20, bufferBloat := Some 15\<rparr>) = Some 12
   \<and> latency (blank\<lparr>downloadSpeed := Some 50, uploadSpeed := Some 12,
                        latency := Some 20, bufferBloat := Some 15\<rparr>) = Some 20
   \<and> bufferBloat (blank\<lparr>downloadSpeed := Some 50, uploadSpeed := Some 12,
                        latency := Some 20, bufferBloat := Some 15\<rparr>) = Some 15
   \<and> subscriber None (map Next [blank\<lparr>downloadSpeed := Some 40\<rparr>]
        @ [Next (blank\<lparr>downloadSpeed := Some 50, uploadSpeed := Some 12,
                        latency := Some 20, bufferBloat := Some 15\<rparr>), Complete])
       = Fulfilled \<lparr>SpeedTestResult.downloadSpeed = 50, uploadSpeed = 12, latency = 20,
                    bufferBloat = 0\<rparr>"
  using bufferbloat_normalization [of "blank\<lparr>downloadSpeed := Some 50, uploadSpeed := Some 12,
        latency := Some 20, bufferBloat := Some 15\<rparr>" 50 12 20 15 "[blank\<lparr>downloadSpeed := Some 40\<rparr>]"]
  by (simp add: blank_def)

section \<open>Properties of the publisher\<close>

lemma quoteJSONString_keys:
  "quoteJSONString ''download_speed'' = [CHR 0x22] @ ''download_speed'' @ [CHR 0x22]"
  "quoteJSONString ''upload_speed'' = [CHR 0x22] @ ''upload_speed'' @ [CHR 0x22]"
  "quoteJSONString ''latency'' = [CHR 0x22] @ ''latency'' @ [CHR 0x22]"
  "quoteJSONString ''buffer_bloat'' = [CHR 0x22] @ ''buffer_bloat'' @ [CHR 0x22]"
  by (simp_all add: quoteJSONString_def quoteChar_def)

text \<open>
  C5 (threshold law). \<open>publishSpeedTestResult\<close> publishes exactly one message, the JSON
  object of the four measured values on the state topic, if and only if downloadSpeed is at
  least 5; below 5 it publishes nothing, writes one warning and is fulfilled.
\<close>

theorem threshold_law:
  "published (snd (publishSpeedTestResult w identifier r))
     = published w
       @ (if 5 \<le> SpeedTestResult.downloadSpeed r
          then [(''homeassistant/sensor/st_'' @ identifier @ ''/state'',
                 ''{'' @ [CHR 0x22] @ ''download_speed'' @ [CHR 0x22] @ '':''
                    @ numberToString w (SpeedTestResult.downloadSpeed r)
                 @ '','' @ [CHR 0x22] @ ''upload_speed'' @ [CHR 0x22] @ '':''
                    @ numberToString w (SpeedTestResult.uploadSpeed r)
                 @ '','' @ [CHR 0x22] @ ''latency'' @ [CHR 0x22] @ '':''
                    @ numberToString w (SpeedTestResult.latency r)
                 @ '','' @ [CHR 0x22] @ ''buffer_bloat'' @ [CHR 0x22] @ '':''
                    @ numberToString w (SpeedTestResult.bufferBloat r)
                 @ ''}'')]
          else [])
   \<and> (SpeedTestResult.downloadSpeed r < 5 \<longrightarrow>
        publishSpeedTestResult w identifier r
          = (Fulfilled (),
             w\<lparr>console := console w
                 @ [Warn ''[st2mqtt] Download speed is less than 5 Mbps, skipping publishing'']\<rparr>))"
proof (cases "SpeedTestResult.downloadSpeed r < 5")
  case True
  then show ?thesis
    by (simp add: publishSpeedTestResult_def console_warn_def)
next
  case False
  then show ?thesis
    by (simp add: publishSpeedTestResult_def publishAsync_def console_log_def getStateTopic_def
        getDeviceIdentifier_def quoteJSONString_keys)
qed

theorem threshold_law_witness:
  "SpeedTestResult.downloadSpeed
      \<lparr>SpeedTestResult.downloadSpeed = 3, uploadSpeed = 12, latency = 20, bufferBloat = 15\<rparr> < 5
   \<and> fst (publishSpeedTestResult accepting_world ''abc''
        \<lparr>SpeedTestResult.downloadSpeed = 3, uploadSpeed = 12, latency = 20, bufferBloat = 15\<rparr>)
      = Fulfilled ()
   \<and> published (snd (publishSpeedTestResult accepting_world ''abc''
        \<lparr>SpeedTestResult.downloadSpeed = 3, uploadSpeed = 12, latency = 20, bufferBloat = 15\<rparr>))
      = []
   \<and> console (snd (publishSpeedTestResult accepting_world ''abc''
        \<lparr>SpeedTestResult.downloadSpeed = 3, uploadSpeed = 12, latency = 20, bufferBloat = 15\<rparr>))
      = [Warn ''[st2mqtt] Download speed is less than 5 Mbps, skipping publishing'']"
  using threshold_law [of accepting_world "''abc''"
      "\<lparr>SpeedTestResult.downloadSpeed = 3, uploadSpeed = 12, latency = 20, bufferBloat = 15\<rparr>"]
  by (simp add: accepting_world_def)

lemma discoveryTopic_explicit:
  "discoveryTopic identifier sensorType
     = ''homeassistant/sensor/st_'' @ identifier @ ''/'' @ sensorTypeLiteral sensorType @ ''/config''"
  by (simp add: discoveryTopic_def getDeviceIdentifier_def)

lemma publishDiscoverMessage_published:
  "published (snd (publishDiscoverMessage w identifier sensorType))
     = published w
       @ [(discoveryTopic identifier sensorType,
           JSON_stringify (numberToString w) (discoveryPayload identifier sensorType))]"
  by (simp add: publishDiscoverMessage_def publishAsync_def console_log_def)

lemma publishDiscoverMessage_keeps:
  "numberToString (snd (publishDiscoverMessage w identifier sensorType)) = numberToString w"
  "rejects (snd (publishDiscoverMessage w identifier sensorType)) = rejects w"
  by (simp_all add: publishDiscoverMessage_def publishAsync_def console_log_def)

lemma publishDiscoveryMessages_published:
  "published (snd (publishDiscoveryMessages w identifier))
     = published w
       @ map (\<lambda>t. (discoveryTopic identifier t,
                   JSON_stringify (numberToString w) (discoveryPayload identifier t)))
           [Download_speed, Upload_speed, Latency, Buffer_bloat]"
  by (simp add: publishDiscoveryMessages_def split_beta Let_def publishDiscoverMessage_published
      publishDiscoverMessage_keeps)


text \<open>
  C9 (discovery determinism). The message that \<open>publishDiscoverMessage\<close> publishes is
  determined by the identifier and the sensor variant alone: there is one payload that is
  published, whatever the world, to the topic
  \<open>homeassistant/sensor/st_<id>/<variant>/config\<close>, and two calls in a row publish it
  twice.
\<close>

theorem discovery_deterministic:
  "\<exists>payload. \<forall>w.
     (let w1 = snd (publishDiscoverMessage w identifier sensorType);
          w2 = snd (publishDiscoverMessage w1 identifier sensorType)
      in published w1
           = published w
             @ [(''homeassistant/sensor/st_'' @ identifier @ ''/'' @ sensorTypeLiteral sensorType @ ''/config'',
                 payload)]
         \<and> published w2
           = published w
             @ [(''homeassistant/sensor/st_'' @ identifier @ ''/'' @ sensorTypeLiteral sensorType @ ''/config'',
                 payload),
                (''homeassistant/sensor/st_'' @ identifier @ ''/'' @ sensorTypeLiteral sensorType @ ''/config'',
                 payload)])"
proof -
  have indep: "JSON_stringify f (discoveryPayload identifier sensorType)
      = JSON_stringify (\<lambda>n. []) (discoveryPayload identifier sensorType)" for f
    by (simp add: discoveryPayload_def split: option.splits)
  show ?thesis
  proof (rule exI [of _ "JSON_stringify (\<lambda>n. []) (discoveryPayload identifier sensorType)"],
      rule allI)
    fix w
    show "let w1 = snd (publishDiscoverMessage w identifier sensorType);
          w2 = snd (publishDiscoverMessage w1 identifier sensorType)
      in published w1
           = published w
             @ [(''homeassistant/sensor/st_'' @ identifier @ ''/'' @ sensorTypeLiteral sensorType @ ''/config'',
                 JSON_stringify (\<lambda>n. []) (discoveryPayload identifier sensorType))]
         \<and> published w2
           = published w
             @ [(''homeassistant/sensor/st_'' @ identifier @ ''/'' @ sensorTypeLiteral sensorType @ ''/config'',
                 JSON_stringify (\<lambda>n. []) (discoveryPayload identifier sensorType)),
                (''homeassistant/sensor/st_'' @ identifier @ ''/'' @ sensorTypeLiteral sensorType @ ''/config'',
                 JSON_stringify (\<lambda>n. []) (discoveryPayload identifier sensorType))]"
      by (simp add: Let_def publishDiscoverMessage_published publishDiscoverMessage_keeps
          discoveryTopic_explicit indep [of "numberToString w"])
  qed
qed

section \<open>Properties of the message handler\<close>

text \<open>
  C7 (registry reset handling). A message on \<open>homeassistant/status\<close> makes the handler
  publish exactly the four discovery messages, in the order download_speed, upload_speed,
  latency, buffer_bloat, none of them on the state topic. A message on any other topic
  publishes nothing: the handler writes one warning and is fulfilled.
\<close>

theorem registry_reset_handling:
  "published (snd (createMessageHandler w identifier ''homeassistant/status'' message))
     = published w
       @ map (\<lambda>t. (''homeassistant/sensor/st_'' @ identifier @ ''/'' @ sensorTypeLiteral t @ ''/config'',
                   JSON_stringify (numberToString w) (discoveryPayload identifier t)))
           [Download_speed, Upload_speed, Latency, Buffer_bloat]
   \<and> getStateTopic identifier
       \<notin> fst ` set (map (\<lambda>t. (''homeassistant/sensor/st_'' @ identifier @ ''/'' @ sensorTypeLiteral t @ ''/config'',
                   JSON_stringify (numberToString w) (discoveryPayload identifier t)))
           [Download_speed, Upload_speed, Latency, Buffer_bloat])
   \<and> (topic \<noteq> ''homeassistant/status'' \<longrightarrow>
        createMessageHandler w identifier topic message
          = (Fulfilled (),
             w\<lparr>console := console w @ [Warn (''Received message on unknown topic: '' @ topic)]\<rparr>))"
proof (intro conjI impI)
  have "published (snd (createMessageHandler w identifier ''homeassistant/status'' message))
     = published (snd (publishDiscoveryMessages
         (console_log w (''[st2mqtt] Received '' @ [CHR 0x22] @ ''homeassistant/status''
                         @ [CHR 0x22] @ '' message'')) identifier))"
    by (simp add: createMessageHandler_def console_warn_def split: prod.splits Promise.splits)
  then show "published (snd (createMessageHandler w identifier ''homeassistant/status'' message))
     = published w
       @ map (\<lambda>t. (''homeassistant/sensor/st_'' @ identifier @ ''/'' @ sensorTypeLiteral t @ ''/config'',
                   JSON_stringify (numberToString w) (discoveryPayload identifier t)))
           [Download_speed, Upload_speed, Latency, Buffer_bloat]"
    by (simp add: publishDiscoveryMessages_published discoveryTopic_explicit console_log_def)
next
  show "getStateTopic identifier
       \<notin> fst ` set (map (\<lambda>t. (''homeassistant/sensor/st_'' @ identifier @ ''/'' @ sensorTypeLiteral t @ ''/config'',
                   JSON_stringify (numberToString w) (discoveryPayload identifier t)))
           [Download_speed, Upload_speed, Latency, Buffer_bloat])"
    by (simp add: getStateTopic_def getDeviceIdentifier_def)
next
  assume "topic \<noteq> ''homeassistant/status''"
  then show "createMessageHandler w identifier topic message
          = (Fulfilled (),
             w\<lparr>console := console w @ [Warn (''Received message on unknown topic: '' @ topic)]\<rparr>)"
    by (simp add: createMessageHandler_def console_warn_def)
qed

theorem registry_reset_handling_witness:
  "''zigbee2mqtt/bridge/state'' \<noteq> ''homeassistant/status''
   \<and> createMessageHandler accepting_world ''abc'' ''zigbee2mqtt/bridge/state'' ''online''
       = (Fulfilled (),
          accepting_world\<lparr>console :=
            [Warn ''Received message on unknown topic: zigbee2mqtt/bridge/state'']\<rparr>)
   \<and> map fst (published (snd (createMessageHandler accepting_world ''abc'' ''homeassistant/status'' ''online'')))
       = [''homeassistant/sensor/st_abc/download_speed/config'',
          ''homeassistant/sensor/st_abc/upload_speed/config'',
          ''homeassistant/sensor/st_abc/latency/config'',
          ''homeassistant/sensor/st_abc/buffer_bloat/config'']"
  using registry_reset_handling [of accepting_world "''abc''" "''online''" "''zigbee2mqtt/bridge/state''"]
  by (simp add: accepting_world_def)

text \<open>
  C10 (fall-through of the status case). As stated, the warning of the default branch is
  written for every incoming message. It is not when a publish of the discovery burst is
  rejected: the awaited burst rejects the handler before control reaches the default
  branch.
\<close>

theorem handler_warns_for_every_message_counterexample:
  "fst (createMessageHandler rejecting_world ''abc'' ''homeassistant/status'' ''online'')
     = Rejected (Error ''client disconnecting'')
   \<and> Warn ''Received message on unknown topic: homeassistant/status''
       \<notin> set (console (snd (createMessageHandler rejecting_world ''abc''
                 ''homeassistant/status'' ''online'')))"
  by (simp add: createMessageHandler_def publishDiscoveryMessages_def publishDiscoverMessage_def
      publishAsync_def console_log_def rejecting_world_def Let_def)

text \<open>
  C10, amended. When the discovery burst is fulfilled, the handler of a message on
  \<open>homeassistant/status\<close> goes on into the default branch and writes the unknown-topic
  warning after the burst; when the burst is not fulfilled the handler ends as the burst
  did. For every topic, a fulfilled handler has written the unknown-topic warning last.
\<close>

theorem handler_fall_through:
  "(let burst = publishDiscoveryMessages
                  (console_log w (''[st2mqtt] Received '' @ [CHR 0x22] @ ''homeassistant/status''
                                    @ [CHR 0x22] @ '' message''))
                  identifier
    in (fst burst = Fulfilled () \<longrightarrow>
          createMessageHandler w identifier ''homeassistant/status'' message
            = (Fulfilled (),
               console_warn (snd burst) ''Received message on unknown topic: homeassistant/status''))
       \<and> (fst burst \<noteq> Fulfilled () \<longrightarrow>
            createMessageHandler w identifier ''homeassistant/status'' message = burst))
   \<and> (fst (createMessageHandler w identifier topic message) = Fulfilled () \<longrightarrow>
        last (console (snd (createMessageHandler w identifier topic message)))
          = Warn (''Received message on unknown topic: '' @ topic))"
  by (auto simp add: createMessageHandler_def Let_def console_warn_def
      split: prod.splits Promise.splits)

theorem handler_fall_through_witness:
  "fst (publishDiscoveryMessages
          (console_log accepting_world (''[st2mqtt] Received '' @ [CHR 0x22] @ ''homeassistant/status''
                                    @ [CHR 0x22] @ '' message''))
          ''abc'') = Fulfilled ()
   \<and> fst (createMessageHandler accepting_world ''abc'' ''homeassistant/status'' ''online'') = Fulfilled ()
   \<and> last (console (snd (createMessageHandler accepting_world ''abc'' ''homeassistant/status'' ''online'')))
       = Warn ''Received message on unknown topic: homeassistant/status''"
proof -
  have burst: "fst (publishDiscoveryMessages
          (console_log accepting_world (''[st2mqtt] Received '' @ [CHR 0x22] @ ''homeassistant/status''
                                    @ [CHR 0x22] @ '' message''))
          ''abc'') = Fulfilled ()"
    by (simp add: publishDiscoveryMessages_def publishDiscoverMessage_def publishAsync_def
        console_log_def accepting_world_def Let_def)
  with handler_fall_through [of accepting_world "''abc''" "''online''" "''homeassistant/status''"]
  show ?thesis
    by (simp add: Let_def console_warn_def)
qed

section \<open>Properties of the exit handlers\<close>

text \<open>
  C8 (shutdown). The claim is that a termination signal stops the cron job and closes the
  bus connection exactly once and exits with 128 plus the signal number. The exit codes are
  129, 130 and 143, and a second signal changes nothing; but the signal listeners call
  \<open>process.exit\<close> directly, the clean-up listens to \<open>beforeExit\<close> only, and so on
  a signal neither \<open>cronJob.stop()\<close> nor \<open>mqttClient.end()\<close> is called.
\<close>

theorem signal_exit_skips_cleanup:
  "receive (registerExitHandlers running_process) [Signalled SIGTERM]
     = \<lparr>logged = [Log ''[st2mqtt] Registering exit handlers''],
        cronJob_stops = 0, mqttClient_ends = 0, exited = Some 143\<rparr>
   \<and> receive (registerExitHandlers running_process) [Signalled SIGHUP]
     = \<lparr>logged = [Log ''[st2mqtt] Registering exit handlers''],
        cronJob_stops = 0, mqttClient_ends = 0, exited = Some 129\<rparr>
   \<and> receive (registerExitHandlers running_process) [Signalled SIGINT, Signalled SIGTERM]
     = \<lparr>logged = [Log ''[st2mqtt] Registering exit handlers''],
        cronJob_stops = 0, mqttClient_ends = 0, exited = Some 130\<rparr>"
  by (simp add: registerExitHandlers_def running_process_def process_exit_def)

end
